theory Spec2Isabelle
  imports Main "HOL-Library.Char_ord" "HOL-Library.Sublist"
begin

section \<open>Strings and arrays as the TypeScript runtime has them\<close>

text \<open>
  \<^verbatim>\<open>s.split(c)\<close> for a one-character separator: the string is cut at every occurrence
  of the separator, and the result always has at least one field (the empty string gives
  one empty field).
\<close>

fun split_chr :: "char \<Rightarrow> string \<Rightarrow> string list" where
  "split_chr c [] = [[]]"
| "split_chr c (x # xs) =
     (if x = c then [] # split_chr c xs
      else (case split_chr c xs of [] \<Rightarrow> [[x]] | w # ws \<Rightarrow> (x # w) # ws))"

text \<open>
  \<^verbatim>\<open>arr[i]\<close>: reading an array past its end gives \<^verbatim>\<open>undefined\<close>, here \<open>None\<close>.
\<close>

definition at :: "'a list \<Rightarrow> nat \<Rightarrow> 'a option" where
  "at xs i = (if i < length xs then Some (xs ! i) else None)"

text \<open>
  The regular expression \<^verbatim>\<open>/^[a-zA-Z]+$/\<close>: anchored at both ends, one or more
  characters, each in one of the two ranges of the class.
\<close>

definition in_class_azAZ :: "char \<Rightarrow> bool" where
  "in_class_azAZ c \<longleftrightarrow> (CHR ''a'' \<le> c \<and> c \<le> CHR ''z'') \<or> (CHR ''A'' \<le> c \<and> c \<le> CHR ''Z'')"

definition test_plain :: "string \<Rightarrow> bool" where
  "test_plain s \<longleftrightarrow> s \<noteq> [] \<and> list_all in_class_azAZ s"

section \<open>Authorization utilities\<close>

subsection \<open>checkRelation\<close>

datatype error = Error string

definition checkRelation :: "string \<Rightarrow> string \<Rightarrow> string \<Rightarrow> error + unit" where
  "checkRelation subj rel object =
     (if CHR '':'' \<notin> set subj then Inl (Error ''Subject must be a valid resource identifier'')
      else if CHR '':'' \<notin> set object then Inl (Error ''Object must be a valid resource identifier'')
      else if \<not> test_plain rel then Inl (Error ''Relation must be a plain string'')
      else if subj = object then Inl (Error ''Subject and object must be different'')
      else Inr ())"

subsection \<open>Tuple encoding\<close>

definition computeRelationTuple :: "string \<Rightarrow> string \<Rightarrow> string \<Rightarrow> string" where
  "computeRelationTuple subj rel object = subj @ ''#'' @ rel @ ''@'' @ object"

definition computePermissionTuple :: "string \<Rightarrow> string \<Rightarrow> string \<Rightarrow> string" where
  "computePermissionTuple subj rel object = subj @ ''#'' @ rel @ ''@'' @ object"

subsection \<open>constructObjectIndex\<close>

text \<open>
  The result is a \<^verbatim>\<open>Partial<ObjectIndex>\<close>. The four fields read out of a split can be
  \<^verbatim>\<open>undefined\<close>, so they are options.
\<close>

record ObjectIndex =
  subject :: string
  subjectId :: "string option"
  subjectType :: "string option"
  subjectPermission :: string
  entity :: string
  entityId :: "string option"
  entityType :: "string option"
  relation :: string
  inheritanceTree :: "string list"

definition constructObjectIndex ::
  "string \<Rightarrow> string \<Rightarrow> string \<Rightarrow> string \<Rightarrow> string list \<Rightarrow> ObjectIndex" where
  "constructObjectIndex subj permission role object tree =
     (let wildcard = (role = ''*'' \<or> object = ''*'') in
      \<lparr> subject = subj @ ''#'' @ permission,
        subjectId = at (split_chr CHR '':'' subj) 1,
        subjectType = at (split_chr CHR '':'' subj) 0,
        subjectPermission = permission,
        entity = (if wildcard then ''*'' else object @ ''#'' @ role),
        entityId = (if wildcard then Some ''*'' else at (split_chr CHR '':'' object) 1),
        entityType = (if wildcard then Some ''*'' else at (split_chr CHR '':'' object) 0),
        relation = (if wildcard then ''*'' else role),
        inheritanceTree = tree \<rparr>)"

subsection \<open>Access-list query generators\<close>

text \<open>
  Both generators are template strings; each source line of the template is one line
  below, and \<open>[CHR 0x27]\<close> is the single quote next to an interpolated value.
\<close>

definition getPostgresAccessListQuery ::
  "string \<Rightarrow> string \<Rightarrow> string \<Rightarrow> string \<Rightarrow> string \<Rightarrow> string" where
  \<open>getPostgresAccessListQuery objectTypeCollection computedTuple subj objectType action =
    ''\<newline>'' @
    ''      SELECT s.*\<newline>'' @
    ''      FROM "'' @ objectTypeCollection @ ''" as s\<newline>'' @
    ''               INNER JOIN ((SELECT obj.entity\<newline>'' @
    ''                            FROM (SELECT *\<newline>'' @
    ''                                  FROM "cnd_ActorIndex"\<newline>'' @
    ''                                  WHERE subject = '' @ [CHR 0x27] @ subj @ [CHR 0x27] @ '') as actors\<newline>'' @
    ''                                     INNER JOIN (SELECT *\<newline>'' @
    ''                                                 FROM "cnd_ObjectIndex"\<newline>'' @
    ''                                                 WHERE "subjectType" = '' @ [CHR 0x27] @ objectType @ [CHR 0x27] @ ''\<newline>'' @
    ''                                                   AND "subjectPermission" = '' @ [CHR 0x27] @ action @ [CHR 0x27] @ '') as obj\<newline>'' @
    ''                                                ON actors.entity = obj.entity OR obj.entity = '*')\<newline>'' @
    ''                           UNION\<newline>'' @
    ''                           (SELECT "computedTuple"\<newline>'' @
    ''                            FROM "cnd_Permission"\<newline>'' @
    ''                            WHERE "computedTuple" LIKE '' @ [CHR 0x27] @ computedTuple @ ''%')) idx\<newline>'' @
    ''                          ON idx.entity LIKE '%' || TEXT(s._id) || '%'\<newline>'' @
    ''  ''\<close>

definition getSQLAccessListQuery ::
  "string \<Rightarrow> string \<Rightarrow> string \<Rightarrow> string \<Rightarrow> string \<Rightarrow> string" where
  \<open>getSQLAccessListQuery objectTypeCollection computedTuple subj objectType action =
    ''SELECT '' @ objectTypeCollection @ ''.*\<newline>'' @
    ''          FROM '' @ objectTypeCollection @ ''\<newline>'' @
    ''                   INNER JOIN (SELECT *\<newline>'' @
    ''                               FROM cnd_Permission\<newline>'' @
    ''                               WHERE computedTuple LIKE '' @ [CHR 0x27] @ computedTuple @ ''%') permissions\<newline>'' @
    ''                              ON permissions.computedTuple = '' @ [CHR 0x27] @ computedTuple @ '':' || '' @ objectTypeCollection @ ''._id\<newline>'' @
    ''                   INNER JOIN (SELECT *\<newline>'' @
    ''                               FROM cnd_ActorIndex\<newline>'' @
    ''                               WHERE subject = '' @ [CHR 0x27] @ subj @ [CHR 0x27] @ '') actors ON 1 = 1\<newline>'' @
    ''                   INNER JOIN (SELECT *\<newline>'' @
    ''                               FROM cnd_ObjectIndex\<newline>'' @
    ''                               WHERE "subjectType" = '' @ [CHR 0x27] @ objectType @ [CHR 0x27] @ ''\<newline>'' @
    ''                                 AND "subjectPermission" = '' @ [CHR 0x27] @ action @ [CHR 0x27] @ '') objects\<newline>'' @
    ''                              ON actors.entity = obj.entity OR obj.entity = '*';''\<close>

section \<open>Rule cache\<close>

text \<open>
  \<^verbatim>\<open>grpcSdk.state!\<close> is the handle to the key-value service, asserted present by the
  code. It is a parameter of both functions: a pair of operations on the service's
  state \<open>'st\<close>. \<^verbatim>\<open>getKey\<close> answers a string or \<^verbatim>\<open>null\<close>.
\<close>

record 'st StateManager =
  setKey :: "string \<Rightarrow> string \<Rightarrow> nat \<Rightarrow> 'st \<Rightarrow> 'st"
  getKey :: "string \<Rightarrow> 'st \<Rightarrow> string option"

text \<open>\<^verbatim>\<open>Boolean(decision).toString()\<close>\<close>

definition boolean_toString :: "bool \<Rightarrow> string" where
  "boolean_toString b = (if b then ''true'' else ''false'')"

definition storeResolution :: "'st StateManager \<Rightarrow> string \<Rightarrow> bool \<Rightarrow> 'st \<Rightarrow> 'st" where
  "storeResolution state computedTuple decision =
     setKey state (''ruleCache:'' @ computedTuple) (boolean_toString decision) 2000"

text \<open>
  The promise resolves to \<^verbatim>\<open>boolean | null\<close>: \<open>None\<close> is \<^verbatim>\<open>null\<close> (a miss),
  \<open>Some b\<close> a hit with decision \<open>b\<close>.
\<close>

definition findResolution :: "'st StateManager \<Rightarrow> string \<Rightarrow> 'st \<Rightarrow> bool option" where
  "findResolution state computedTuple st =
     (case getKey state (''ruleCache:'' @ computedTuple) st of
        Some v \<Rightarrow> Some (v = ''true'')
      | None \<Rightarrow> None)"

subsection \<open>The key-value service\<close>

text \<open>
  Modelled from the spec: the external key-value service behind \<^verbatim>\<open>grpcSdk.state\<close>,
  whose implementation is not among the sources. The spec requires of it
  \<^verbatim>\<open>setWithExpiry(key, value, ttlMs)\<close> and \<^verbatim>\<open>get(key) -> value | absent\<close>, an entry
  being absent once its time to live has elapsed on the service's own clock. The state
  holds the clock (in milliseconds), the entries with the instant at which each one
  expires, and the list of writes received, oldest first. Calls reach the service one
  after the other, in the order in which they are issued.
\<close>

record kv =
  clock :: nat
  entries :: "string \<rightharpoonup> string \<times> nat"
  writes :: "(string \<times> string \<times> nat) list"

definition kv_setKey :: "string \<Rightarrow> string \<Rightarrow> nat \<Rightarrow> kv \<Rightarrow> kv" where
  "kv_setKey k v ttl s =
     s\<lparr> entries := (entries s)(k \<mapsto> (v, clock s + ttl)), writes := writes s @ [(k, v, ttl)] \<rparr>"

definition kv_getKey :: "string \<Rightarrow> kv \<Rightarrow> string option" where
  "kv_getKey k s =
     (case entries s k of
        None \<Rightarrow> None
      | Some (v, expires) \<Rightarrow> if clock s < expires then Some v else None)"

definition kvService :: "kv StateManager" where
  "kvService = \<lparr> setKey = kv_setKey, getKey = kv_getKey \<rparr>"

definition kv_init :: kv where
  "kv_init = \<lparr> clock = 0, entries = Map.empty, writes = [] \<rparr>"

definition elapse :: "nat \<Rightarrow> kv \<Rightarrow> kv" where
  "elapse ms s = s\<lparr> clock := clock s + ms \<rparr>"

text \<open>
  A history of the cache: decisions stored through \<open>storeResolution\<close> and time passing
  in between.
\<close>

datatype event = Store string bool | Elapse nat

fun run :: "event list \<Rightarrow> kv \<Rightarrow> kv" where
  "run [] s = s"
| "run (Store t d # es) s = run es (storeResolution kvService t d s)"
| "run (Elapse ms # es) s = run es (elapse ms s)"

fun elapsed :: "event list \<Rightarrow> nat" where
  "elapsed [] = 0"
| "elapsed (Store t d # es) = elapsed es"
| "elapsed (Elapse ms # es) = ms + elapsed es"

fun stores :: "string \<Rightarrow> event list \<Rightarrow> bool" where
  "stores t [] = False"
| "stores t (Store t' d # es) = (t' = t \<or> stores t es)"
| "stores t (Elapse ms # es) = stores t es"

section \<open>Properties\<close>

text \<open>
  C5. Computing the tuple of a subject, a relation and an object returns exactly the
  subject, a hash sign, the relation, an at sign and the object, on every input (so also
  on every well-formed triple with different subject and object); the result is a
  function of the three inputs, and the permission-tuple encoder returns the same string
  as the relation-tuple encoder on every input.
\<close>

theorem computeTuple_exact:
  "computeRelationTuple s r ob = s @ ''#'' @ r @ ''@'' @ ob
   \<and> computePermissionTuple s r ob = computeRelationTuple s r ob"
  by (simp add: computeRelationTuple_def computePermissionTuple_def)

subsection \<open>Splitting identifiers\<close>

lemma split_chr_nonempty: "split_chr c s \<noteq> []"
  by (induction s) (auto split: list.splits)

lemma at_split_chr_0: "at (split_chr c s) 0 = Some (takeWhile (\<lambda>x. x \<noteq> c) s)"
proof (induction s)
  case Nil
  show ?case by (simp add: at_def)
next
  case (Cons x xs)
  then show ?case
    using split_chr_nonempty [of c xs]
    by (cases "split_chr c xs") (auto simp: at_def split: if_splits)
qed

lemma at_split_chr_1:
  "at (split_chr c s) (Suc 0) =
     (if c \<in> set s then Some (takeWhile (\<lambda>x. x \<noteq> c) (tl (dropWhile (\<lambda>x. x \<noteq> c) s))) else None)"
proof (induction s)
  case Nil
  show ?case by (simp add: at_def)
next
  case (Cons x xs)
  show ?case
  proof (cases "x = c")
    case True
    then show ?thesis
      using at_split_chr_0 [of c xs] split_chr_nonempty [of c xs]
      by (cases "split_chr c xs") (auto simp: at_def)
  next
    case False
    then show ?thesis
      using Cons.IH split_chr_nonempty [of c xs]
      by (cases "split_chr c xs") (auto simp: at_def split: if_splits)
  qed
qed

lemma takeWhile_sep: "c \<notin> set ty \<Longrightarrow> takeWhile (\<lambda>x. x \<noteq> c) (ty @ c # rest) = ty"
  by (induction ty) auto

lemma dropWhile_sep: "c \<notin> set ty \<Longrightarrow> dropWhile (\<lambda>x. x \<noteq> c) (ty @ c # rest) = c # rest"
  by (induction ty) auto

lemma takeWhile_no_sep: "c \<notin> set s \<Longrightarrow> takeWhile (\<lambda>x. x \<noteq> c) s = s"
  by (induction s) auto

lemma first_sep_fields:
  assumes "c \<notin> set ty"
  shows "at (split_chr c (ty @ c # rest)) 0 = Some ty"
    and "at (split_chr c (ty @ c # rest)) (Suc 0) = Some (takeWhile (\<lambda>x. x \<noteq> c) rest)"
  using assms by (simp_all add: at_split_chr_0 at_split_chr_1 takeWhile_sep dropWhile_sep)

lemma no_sep_fields:
  assumes "c \<notin> set s"
  shows "at (split_chr c s) 0 = Some s" and "at (split_chr c s) (Suc 0) = None"
  using assms by (simp_all add: at_split_chr_0 at_split_chr_1 takeWhile_no_sep)

text \<open>
  C1, as the code has it. \<open>constructObjectIndex\<close> cuts an identifier at every colon and
  keeps the first two fields. For a subject made of a type without colon, a colon and a
  rest, \<open>subjectType\<close> is the type and \<open>subjectId\<close> is the rest up to its own first
  colon: the id is the whole rest only when the rest has no colon, and otherwise loses
  everything from the second colon of the subject on. A subject without colon is its own
  \<open>subjectType\<close> and has no \<open>subjectId\<close>. For the subject \<open>user:abc:def\<close>,
  \<open>subjectType\<close> is \<open>user\<close> and \<open>subjectId\<close> is \<open>abc\<close>. Likewise for \<open>entityType\<close> and
  \<open>entityId\<close> of a non-wildcard object, that is when neither the role nor the object is
  \<open>*\<close>: an object made of a type, a colon and a rest (which is never \<open>*\<close>) has the
  type as \<open>entityType\<close> and the rest up to its first colon as \<open>entityId\<close>, an object
  without colon is its own \<open>entityType\<close> and has no \<open>entityId\<close>, and the object
  \<open>user:abc:def\<close> has \<open>entityType\<close> \<open>user\<close> and \<open>entityId\<close> \<open>abc\<close>.
\<close>

theorem constructObjectIndex_split_every_colon:
  "(CHR '':'' \<notin> set ty \<longrightarrow>
      subjectType (constructObjectIndex (ty @ '':'' @ rest) p role ob tr) = Some ty
      \<and> subjectId (constructObjectIndex (ty @ '':'' @ rest) p role ob tr)
          = Some (takeWhile (\<lambda>c. c \<noteq> CHR '':'') rest)
      \<and> (CHR '':'' \<notin> set rest \<longrightarrow>
            subjectId (constructObjectIndex (ty @ '':'' @ rest) p role ob tr) = Some rest))
   \<and> (CHR '':'' \<notin> set s \<longrightarrow>
      subjectType (constructObjectIndex s p role ob tr) = Some s
      \<and> subjectId (constructObjectIndex s p role ob tr) = None)
   \<and> subjectType (constructObjectIndex ''user:abc:def'' p role ob tr) = Some ''user''
   \<and> subjectId (constructObjectIndex ''user:abc:def'' p role ob tr) = Some ''abc''
   \<and> ty @ '':'' @ rest \<noteq> ''*''
   \<and> (CHR '':'' \<notin> set ty \<and> role \<noteq> ''*'' \<and> ty @ '':'' @ rest \<noteq> ''*'' \<longrightarrow>
      entityType (constructObjectIndex s p role (ty @ '':'' @ rest) tr) = Some ty
      \<and> entityId (constructObjectIndex s p role (ty @ '':'' @ rest) tr)
          = Some (takeWhile (\<lambda>c. c \<noteq> CHR '':'') rest)
      \<and> (CHR '':'' \<notin> set rest \<longrightarrow>
            entityId (constructObjectIndex s p role (ty @ '':'' @ rest) tr) = Some rest))
   \<and> (CHR '':'' \<notin> set ob \<and> role \<noteq> ''*'' \<and> ob \<noteq> ''*'' \<longrightarrow>
      entityType (constructObjectIndex s p role ob tr) = Some ob
      \<and> entityId (constructObjectIndex s p role ob tr) = None)
   \<and> (role \<noteq> ''*'' \<and> ''user:abc:def'' \<noteq> ''*'' \<longrightarrow>
      entityType (constructObjectIndex s p role ''user:abc:def'' tr) = Some ''user''
      \<and> entityId (constructObjectIndex s p role ''user:abc:def'' tr) = Some ''abc'')"
proof -
  have star: "ty @ '':'' @ rest \<noteq> ''*''"
    by (cases ty) auto
  have a: "subjectType (constructObjectIndex (ty @ '':'' @ rest) p role ob tr) = Some ty"
    "subjectId (constructObjectIndex (ty @ '':'' @ rest) p role ob tr)
       = Some (takeWhile (\<lambda>c. c \<noteq> CHR '':'') rest)"
    if "CHR '':'' \<notin> set ty"
    using that by (simp_all add: constructObjectIndex_def Let_def first_sep_fields)
  have b: "entityType (constructObjectIndex s p role (ty @ '':'' @ rest) tr) = Some ty"
    "entityId (constructObjectIndex s p role (ty @ '':'' @ rest) tr)
       = Some (takeWhile (\<lambda>c. c \<noteq> CHR '':'') rest)"
    if "CHR '':'' \<notin> set ty" "role \<noteq> ''*''"
    using that star by (simp_all add: constructObjectIndex_def Let_def first_sep_fields)
  have c: "takeWhile (\<lambda>c. c \<noteq> CHR '':'') rest = rest" if "CHR '':'' \<notin> set rest"
    using that by (rule takeWhile_no_sep)
  have d: "subjectType (constructObjectIndex ''user:abc:def'' p role ob tr) = Some ''user''"
    "subjectId (constructObjectIndex ''user:abc:def'' p role ob tr) = Some ''abc''"
    by (simp_all add: constructObjectIndex_def Let_def at_def)
  have e: "subjectType (constructObjectIndex s p role ob tr) = Some s"
    "subjectId (constructObjectIndex s p role ob tr) = None"
    if "CHR '':'' \<notin> set s"
    using that by (simp_all add: constructObjectIndex_def Let_def no_sep_fields)
  have f: "entityType (constructObjectIndex s p role ob tr) = Some ob"
    "entityId (constructObjectIndex s p role ob tr) = None"
    if "CHR '':'' \<notin> set ob" "role \<noteq> ''*''" "ob \<noteq> ''*''"
    using that by (simp_all add: constructObjectIndex_def Let_def no_sep_fields)
  have g: "entityType (constructObjectIndex s p role ''user:abc:def'' tr) = Some ''user''"
    "entityId (constructObjectIndex s p role ''user:abc:def'' tr) = Some ''abc''"
    if "role \<noteq> ''*''"
    using that by (simp_all add: constructObjectIndex_def Let_def at_def)
  show ?thesis using a b c d e f g star by simp
qed

theorem constructObjectIndex_split_every_colon_witness:
  "CHR '':'' \<notin> set ''doc'' \<and> CHR '':'' \<notin> set ''42''
   \<and> subjectType (constructObjectIndex ''doc:42'' ''read'' ''viewer'' ''group'' []) = Some ''doc''
   \<and> subjectId (constructObjectIndex ''doc:42'' ''read'' ''viewer'' ''group'' []) = Some ''42''
   \<and> CHR '':'' \<notin> set ''user''
   \<and> subjectType (constructObjectIndex ''user'' ''read'' ''viewer'' ''group'' []) = Some ''user''
   \<and> subjectId (constructObjectIndex ''user'' ''read'' ''viewer'' ''group'' []) = None
   \<and> ''viewer'' \<noteq> ''*'' \<and> ''doc:42'' \<noteq> ''*''
   \<and> entityType (constructObjectIndex ''user'' ''read'' ''viewer'' ''doc:42'' []) = Some ''doc''
   \<and> entityId (constructObjectIndex ''user'' ''read'' ''viewer'' ''doc:42'' []) = Some ''42''
   \<and> CHR '':'' \<notin> set ''group'' \<and> ''group'' \<noteq> ''*''
   \<and> entityType (constructObjectIndex ''user'' ''read'' ''viewer'' ''group'' []) = Some ''group''
   \<and> entityId (constructObjectIndex ''user'' ''read'' ''viewer'' ''group'' []) = None
   \<and> ''user:abc:def'' \<noteq> ''*''
   \<and> entityId (constructObjectIndex ''user'' ''read'' ''viewer'' ''user:abc:def'' []) = Some ''abc''"
  using constructObjectIndex_split_every_colon
    [where ty = "''doc''" and rest = "''42''" and p = "''read''" and role = "''viewer''"
       and ob = "''group''" and tr = "[]" and s = "''user''"]
  by simp

text \<open>
  The claim C1 as it is written fails: the id of \<open>user:abc:def\<close> is not \<open>abc:def\<close>.
\<close>

theorem constructObjectIndex_first_colon_counterexample:
  "subjectId (constructObjectIndex ''user:abc:def'' ''read'' ''viewer'' ''doc:42'' [''owner''])
     \<noteq> Some ''abc:def''"
  by (simp add: constructObjectIndex_def Let_def at_def)

text \<open>
  C4, as the code has it. When the role or the object is the wildcard \<open>*\<close>, the fields
  \<open>entity\<close>, \<open>entityId\<close>, \<open>entityType\<close> and \<open>relation\<close> are all \<open>*\<close>, whatever the
  object. On every other input \<open>entity\<close> is the object, a hash sign and the role,
  \<open>relation\<close> is the role, \<open>entityType\<close> is the object up to its first colon, and
  \<open>entityId\<close> is what lies between the first colon of the object and the next one (or
  the end); it is undefined when the object has no colon.
\<close>

theorem constructObjectIndex_wildcard:
  "(role = ''*'' \<or> ob = ''*'' \<longrightarrow>
      entity (constructObjectIndex s p role ob tr) = ''*''
      \<and> entityId (constructObjectIndex s p role ob tr) = Some ''*''
      \<and> entityType (constructObjectIndex s p role ob tr) = Some ''*''
      \<and> relation (constructObjectIndex s p role ob tr) = ''*'')
   \<and> (role \<noteq> ''*'' \<and> ob \<noteq> ''*'' \<longrightarrow>
      entity (constructObjectIndex s p role ob tr) = ob @ ''#'' @ role
      \<and> relation (constructObjectIndex s p role ob tr) = role
      \<and> entityType (constructObjectIndex s p role ob tr)
          = Some (takeWhile (\<lambda>c. c \<noteq> CHR '':'') ob)
      \<and> entityId (constructObjectIndex s p role ob tr)
          = (if CHR '':'' \<in> set ob
             then Some (takeWhile (\<lambda>c. c \<noteq> CHR '':'') (tl (dropWhile (\<lambda>c. c \<noteq> CHR '':'') ob)))
             else None))"
  by (simp add: constructObjectIndex_def Let_def at_split_chr_0 at_split_chr_1)

theorem constructObjectIndex_wildcard_witness:
  "(''*'' = ''*'' \<or> ''doc:42'' = ''*'')
   \<and> entity (constructObjectIndex ''user:1'' ''read'' ''*'' ''doc:42'' []) = ''*''
   \<and> entityId (constructObjectIndex ''user:1'' ''read'' ''*'' ''doc:42'' []) = Some ''*''
   \<and> entityType (constructObjectIndex ''user:1'' ''read'' ''*'' ''doc:42'' []) = Some ''*''
   \<and> relation (constructObjectIndex ''user:1'' ''read'' ''*'' ''doc:42'' []) = ''*''
   \<and> (''viewer'' = ''*'' \<or> ''*'' = ''*'')
   \<and> entity (constructObjectIndex ''user:1'' ''read'' ''viewer'' ''*'' []) = ''*''
   \<and> entityId (constructObjectIndex ''user:1'' ''read'' ''viewer'' ''*'' []) = Some ''*''
   \<and> ''viewer'' \<noteq> ''*'' \<and> ''doc:42'' \<noteq> ''*''
   \<and> entity (constructObjectIndex ''user:1'' ''read'' ''viewer'' ''doc:42'' []) = ''doc:42#viewer''
   \<and> relation (constructObjectIndex ''user:1'' ''read'' ''viewer'' ''doc:42'' []) = ''viewer''
   \<and> entityType (constructObjectIndex ''user:1'' ''read'' ''viewer'' ''doc:42'' []) = Some ''doc''
   \<and> entityId (constructObjectIndex ''user:1'' ''read'' ''viewer'' ''doc:42'' []) = Some ''42''"
  using constructObjectIndex_wildcard [of "''*''" "''doc:42''" "''user:1''" "''read''" "[]"]
    constructObjectIndex_wildcard [of "''viewer''" "''*''" "''user:1''" "''read''" "[]"]
    constructObjectIndex_wildcard [of "''viewer''" "''doc:42''" "''user:1''" "''read''" "[]"]
  by simp

text \<open>
  The claim C4 as it is written fails on its second half: for the object \<open>doc:a:b\<close>,
  whose id part is \<open>a:b\<close>, and a role that is not the wildcard, \<open>entityId\<close> is not \<open>a:b\<close>.
\<close>

theorem constructObjectIndex_entityId_counterexample:
  "entityId (constructObjectIndex ''user:1'' ''read'' ''viewer'' ''doc:a:b'' []) \<noteq> Some ''a:b''"
  by (simp add: constructObjectIndex_def Let_def at_def)


subsection \<open>The validator\<close>

lemma in_class_azAZ_letters:
  "in_class_azAZ c \<longleftrightarrow> c \<in> set ''abcdefghijklmnopqrstuvwxyzABCDEFGHIJKLMNOPQRSTUVWXYZ''"
proof (cases c)
  case (Char b0 b1 b2 b3 b4 b5 b6 b7)
  show ?thesis unfolding Char in_class_azAZ_def less_eq_char_def
    by (cases b0; cases b1; cases b2; cases b3; cases b4; cases b5; cases b6; cases b7; simp)
qed

lemma test_plain_iff:
  "test_plain r \<longleftrightarrow>
     r \<noteq> [] \<and> (\<forall>c\<in>set r. c \<in> set ''abcdefghijklmnopqrstuvwxyzABCDEFGHIJKLMNOPQRSTUVWXYZ'')"
  unfolding test_plain_def list_all_iff using in_class_azAZ_letters by blast

text \<open>
  C3. \<open>checkRelation\<close> raises exactly when the subject has no colon, or the object has
  no colon, or the relation is empty or has a character that is not one of the 52 ASCII
  letters, or the subject equals the object. On every other input it returns, and what
  it returns carries no value.
\<close>

theorem checkRelation_raises_iff:
  "((\<exists>e. checkRelation s r ob = Inl e) \<longleftrightarrow>
      (CHR '':'' \<notin> set s \<or> CHR '':'' \<notin> set ob \<or> r = []
       \<or> (\<exists>c\<in>set r. c \<notin> set ''abcdefghijklmnopqrstuvwxyzABCDEFGHIJKLMNOPQRSTUVWXYZ'')
       \<or> s = ob))
   \<and> ((\<nexists>e. checkRelation s r ob = Inl e) \<longrightarrow> checkRelation s r ob = Inr ())"
  unfolding checkRelation_def test_plain_iff by auto

theorem checkRelation_raises_iff_witness:
  "(\<exists>e. checkRelation ''user:1'' ''own3r'' ''doc:42'' = Inl e)
   \<and> (\<exists>c\<in>set ''own3r''. c \<notin> set ''abcdefghijklmnopqrstuvwxyzABCDEFGHIJKLMNOPQRSTUVWXYZ'')
   \<and> (\<nexists>e. checkRelation ''user:1'' ''owner'' ''doc:42'' = Inl e)
   \<and> checkRelation ''user:1'' ''owner'' ''doc:42'' = Inr ()"
  using checkRelation_raises_iff [of "''user:1''" "''own3r''" "''doc:42''"]
    checkRelation_raises_iff [of "''user:1''" "''owner''" "''doc:42''"]
  by simp

subsection \<open>Injectivity of the encoding\<close>

lemma sep_unique:
  "c \<notin> set a \<Longrightarrow> c \<notin> set a' \<Longrightarrow> a @ c # b = a' @ c # b' \<Longrightarrow> a = a' \<and> b = b'"
proof (induction a arbitrary: a')
  case Nil
  then show ?case by (cases a') auto
next
  case (Cons x xs)
  then show ?case by (cases a') auto
qed

text \<open>
  C8. When the subject, the relation and the object of two triples contain neither a
  hash sign nor an at sign, equal encodings mean equal triples. Without that restriction
  the encoding is not injective: two different triples, with a separator inside the
  subject of one and the object of the other, have the same encoding (and both pass
  \<open>checkRelation\<close>).
\<close>

theorem computeRelationTuple_injective_without_separators:
  "((\<forall>x \<in> {s, r, ob, s', r', ob'}. CHR ''#'' \<notin> set x \<and> CHR ''@'' \<notin> set x)
     \<and> computeRelationTuple s r ob = computeRelationTuple s' r' ob'
     \<longrightarrow> s = s' \<and> r = r' \<and> ob = ob')
   \<and> computeRelationTuple ''u:1#a@x'' ''b'' ''d:2'' = computeRelationTuple ''u:1'' ''a'' ''x#b@d:2''
   \<and> (''u:1#a@x'', ''b'', ''d:2'') \<noteq> (''u:1'', ''a'', ''x#b@d:2'')
   \<and> checkRelation ''u:1#a@x'' ''b'' ''d:2'' = Inr ()
   \<and> checkRelation ''u:1'' ''a'' ''x#b@d:2'' = Inr ()"
proof -
  have "s = s' \<and> r = r' \<and> ob = ob'"
    if h: "\<forall>x \<in> {s, r, ob, s', r', ob'}. CHR ''#'' \<notin> set x \<and> CHR ''@'' \<notin> set x"
      and e: "computeRelationTuple s r ob = computeRelationTuple s' r' ob'"
  proof -
    from e have e1: "s @ CHR ''#'' # (r @ ''@'' @ ob) = s' @ CHR ''#'' # (r' @ ''@'' @ ob')"
      by (simp add: computeRelationTuple_def)
    from h have "CHR ''#'' \<notin> set s" "CHR ''#'' \<notin> set s'" by simp_all
    from sep_unique [OF this e1]
    have s: "s = s'" and e2: "r @ CHR ''@'' # ob = r' @ CHR ''@'' # ob'"
      by simp_all
    from h have "CHR ''@'' \<notin> set r" "CHR ''@'' \<notin> set r'" by simp_all
    from sep_unique [OF this e2] s show ?thesis by simp
  qed
  moreover have "computeRelationTuple ''u:1#a@x'' ''b'' ''d:2''
      = computeRelationTuple ''u:1'' ''a'' ''x#b@d:2''"
    by (simp add: computeRelationTuple_def)
  moreover have "checkRelation ''u:1#a@x'' ''b'' ''d:2'' = Inr ()"
    by code_simp
  moreover have "checkRelation ''u:1'' ''a'' ''x#b@d:2'' = Inr ()"
    by code_simp
  ultimately show ?thesis by simp
qed

theorem computeRelationTuple_injective_without_separators_witness:
  "CHR ''#'' \<notin> set ''user:1'' \<and> CHR ''@'' \<notin> set ''user:1''
   \<and> CHR ''#'' \<notin> set ''owner'' \<and> CHR ''@'' \<notin> set ''owner''
   \<and> CHR ''#'' \<notin> set ''doc:42'' \<and> CHR ''@'' \<notin> set ''doc:42''
   \<and> computeRelationTuple ''user:1'' ''owner'' ''doc:42'' = computeRelationTuple ''user:1'' ''owner'' ''doc:42''
   \<and> computeRelationTuple ''user:1'' ''owner'' ''doc:42'' = ''user:1#owner@doc:42''"
  using computeRelationTuple_injective_without_separators
    [of "''user:1''" "''owner''" "''doc:42''" "''user:1''" "''owner''" "''doc:42''"]
  by (simp add: computeRelationTuple_def)

subsection \<open>The rule cache over the key-value service\<close>

lemma storeResolution_kvService:
  "storeResolution kvService t d s = kv_setKey (''ruleCache:'' @ t) (boolean_toString d) 2000 s"
  by (simp add: storeResolution_def kvService_def)

lemma findResolution_kvService:
  "findResolution kvService t s =
     (case entries s (''ruleCache:'' @ t) of
        None \<Rightarrow> None
      | Some (v, expires) \<Rightarrow> if clock s < expires then Some (v = ''true'') else None)"
  by (simp add: findResolution_def kvService_def kv_getKey_def split: option.splits)

lemma clock_run: "clock (run es s) = clock s + elapsed es"
  by (induction es s rule: run.induct)
     (simp_all add: storeResolution_kvService kv_setKey_def elapse_def)

lemma entries_run_other:
  "\<not> stores t es \<Longrightarrow> entries (run es s) (''ruleCache:'' @ t) = entries s (''ruleCache:'' @ t)"
  by (induction es s rule: run.induct)
     (auto simp add: storeResolution_kvService kv_setKey_def elapse_def)

lemma findResolution_run:
  assumes "\<not> stores t es"
  shows "findResolution kvService t (run es s) =
     (case entries s (''ruleCache:'' @ t) of
        None \<Rightarrow> None
      | Some (v, expires) \<Rightarrow> if clock s + elapsed es < expires then Some (v = ''true'') else None)"
  unfolding findResolution_kvService clock_run entries_run_other [OF assms] by (rule refl)

lemma entries_store:
  "entries (storeResolution kvService t d s) (''ruleCache:'' @ t)
     = Some (boolean_toString d, clock s + 2000)"
  by (simp add: storeResolution_kvService kv_setKey_def)

lemma clock_store: "clock (storeResolution kvService t d s) = clock s"
  by (simp add: storeResolution_kvService kv_setKey_def)

lemma boolean_toString_true: "(boolean_toString d = ''true'') = d"
  by (simp add: boolean_toString_def)

text \<open>
  C6. A lookup answers one of three things, and a miss is never the answer \<open>false\<close>.
  Starting from the empty service, after any history that never stored the tuple, the
  lookup is a miss (\<open>None\<close>, which is not \<open>Some False\<close>). After storing a decision for
  the tuple, and any history that does not store it again, the lookup is a hit with that
  decision, true or false, as long as less than 2000 ms have passed, and a miss once
  2000 ms or more have passed.
\<close>

theorem findResolution_tristate:
  "(\<not> stores t es \<longrightarrow>
      findResolution kvService t (run es kv_init) = None
      \<and> findResolution kvService t (run es kv_init) \<noteq> Some False)
   \<and> (\<not> stores t es \<and> elapsed es < 2000 \<longrightarrow>
      findResolution kvService t (run es (storeResolution kvService t d s)) = Some d)
   \<and> (\<not> stores t es \<and> 2000 \<le> elapsed es \<longrightarrow>
      findResolution kvService t (run es (storeResolution kvService t d s)) = None)"
proof -
  have a: "findResolution kvService t (run es kv_init) = None" if "\<not> stores t es"
    using findResolution_run [OF that, of kv_init] by (simp add: kv_init_def)
  have b: "findResolution kvService t (run es (storeResolution kvService t d s)) = Some d"
    if "\<not> stores t es" "elapsed es < 2000"
    using that(2) findResolution_run [OF that(1), of "storeResolution kvService t d s"]
      entries_store [of t d s] clock_store [of t d s]
    by (simp add: boolean_toString_true)
  have c: "findResolution kvService t (run es (storeResolution kvService t d s)) = None"
    if "\<not> stores t es" "2000 \<le> elapsed es"
    using that(2) findResolution_run [OF that(1), of "storeResolution kvService t d s"]
      entries_store [of t d s] clock_store [of t d s]
    by simp
  show ?thesis using a b c by simp
qed

theorem findResolution_tristate_witness:
  "\<not> stores ''user:1#owner@doc:42'' [Store ''user:2#owner@doc:42'' True, Elapse 1999]
   \<and> elapsed [Store ''user:2#owner@doc:42'' True, Elapse 1999] < 2000
   \<and> findResolution kvService ''user:1#owner@doc:42''
        (run [Store ''user:2#owner@doc:42'' True, Elapse 1999] kv_init) = None
   \<and> findResolution kvService ''user:1#owner@doc:42''
        (run [Store ''user:2#owner@doc:42'' True, Elapse 1999]
          (storeResolution kvService ''user:1#owner@doc:42'' False kv_init)) = Some False
   \<and> \<not> stores ''user:1#owner@doc:42'' [Elapse 2000]
   \<and> 2000 \<le> elapsed [Elapse 2000]
   \<and> findResolution kvService ''user:1#owner@doc:42''
        (run [Elapse 2000] (storeResolution kvService ''user:1#owner@doc:42'' True kv_init)) = None"
  using findResolution_tristate
      [of "''user:1#owner@doc:42''" "[Store ''user:2#owner@doc:42'' True, Elapse 1999]" False kv_init]
    findResolution_tristate [of "''user:1#owner@doc:42''" "[Elapse 2000]" True kv_init]
  by simp

text \<open>
  C7. Through any handle, \<open>storeResolution\<close> is one call of \<open>setKey\<close>, with the key
  \<open>ruleCache:\<close> followed by the tuple, the value \<open>true\<close> or \<open>false\<close> after the decision,
  and an expiry of 2000 ms. On the key-value service this is exactly one more write
  received; afterwards the entry under that key holds the new value and expires
  2000 ms after the write, whatever was stored there before, and every other key is
  untouched.
\<close>

theorem storeResolution_one_write:
  "storeResolution sm t d = setKey sm (''ruleCache:'' @ t) (if d then ''true'' else ''false'') 2000
   \<and> writes (storeResolution kvService t d s)
       = writes s @ [(''ruleCache:'' @ t, if d then ''true'' else ''false'', 2000)]
   \<and> entries (storeResolution kvService t d s) (''ruleCache:'' @ t)
       = Some (if d then ''true'' else ''false'', clock s + 2000)
   \<and> (k \<noteq> ''ruleCache:'' @ t \<longrightarrow> entries (storeResolution kvService t d s) k = entries s k)"
  by (simp add: storeResolution_def kvService_def kv_setKey_def boolean_toString_def)

theorem storeResolution_one_write_witness:
  "''ruleCache:b'' \<noteq> ''ruleCache:'' @ ''a''
   \<and> entries (storeResolution kvService ''a'' False (storeResolution kvService ''b'' True kv_init))
        ''ruleCache:b'' = Some (''true'', 2000)
   \<and> entries (storeResolution kvService ''a'' False (storeResolution kvService ''a'' True kv_init))
        ''ruleCache:a'' = Some (''false'', 2000)
   \<and> writes (storeResolution kvService ''a'' False kv_init) = [(''ruleCache:a'', ''false'', 2000)]"
  using storeResolution_one_write
      [of kvService "''a''" False "storeResolution kvService ''b'' True kv_init" "''ruleCache:b''"]
    storeResolution_one_write
      [of kvService "''a''" False "storeResolution kvService ''a'' True kv_init" "''ruleCache:b''"]
    storeResolution_one_write [of kvService "''a''" False kv_init "''ruleCache:b''"]
  by (simp add: kv_init_def storeResolution_def kvService_def kv_setKey_def boolean_toString_def)

text \<open>
  C10. The lookup compares the stored string with \<open>true\<close>, exactly: whenever the service
  answers a value for the key, the lookup is a hit, with decision true if and only if
  the value is the string \<open>true\<close>. Any other value, such as \<open>True\<close>, \<open>TRUE\<close> or \<open>1\<close>,
  is a hit with decision false.
\<close>

theorem findResolution_exact_string:
  "getKey sm (''ruleCache:'' @ t) st = Some v \<Longrightarrow>
     findResolution sm t st = Some (v = ''true'')
     \<and> (v \<in> {''True'', ''TRUE'', ''1''} \<longrightarrow> findResolution sm t st = Some False)"
  by (auto simp add: findResolution_def)

theorem findResolution_exact_string_witness:
  "getKey kvService (''ruleCache:'' @ ''user:1#owner@doc:42'')
      (kv_setKey ''ruleCache:user:1#owner@doc:42'' ''TRUE'' 2000 kv_init) = Some ''TRUE''
   \<and> ''TRUE'' \<in> {''True'', ''TRUE'', ''1''}
   \<and> findResolution kvService ''user:1#owner@doc:42''
        (kv_setKey ''ruleCache:user:1#owner@doc:42'' ''TRUE'' 2000 kv_init) = Some False"
proof -
  have h: "getKey kvService (''ruleCache:'' @ ''user:1#owner@doc:42'')
      (kv_setKey ''ruleCache:user:1#owner@doc:42'' ''TRUE'' 2000 kv_init) = Some ''TRUE''"
    by (simp add: kvService_def kv_getKey_def kv_setKey_def kv_init_def)
  show ?thesis using h findResolution_exact_string [OF h] by simp
qed

subsection \<open>The generated query texts\<close>

lemma sublist_skip: "sublist xs zs \<Longrightarrow> sublist xs (ys @ zs)"
  by (auto simp: sublist_def) (metis append.assoc)

text \<open>
  What the two dialects share, on every input: each text reads from the concrete
  collection, the actor index, the object index and the permission tuples, and each
  matches the computed tuple as a prefix, with the pattern made of the tuple and a
  trailing percent sign.
\<close>

lemma getPostgresAccessListQuery_relations:
  \<open>sublist (''FROM "'' @ c @ ''" as s'') (getPostgresAccessListQuery c t s ty a)\<close>
  \<open>sublist ''FROM "cnd_ActorIndex"'' (getPostgresAccessListQuery c t s ty a)\<close>
  \<open>sublist ''FROM "cnd_ObjectIndex"'' (getPostgresAccessListQuery c t s ty a)\<close>
  \<open>sublist ''FROM "cnd_Permission"'' (getPostgresAccessListQuery c t s ty a)\<close>
  \<open>sublist (''"computedTuple" LIKE '' @ [CHR 0x27] @ t @ ''%'' @ [CHR 0x27])
     (getPostgresAccessListQuery c t s ty a)\<close>
  unfolding getPostgresAccessListQuery_def
  by (simp_all add: sublist_Cons_right sublist_skip)

lemma getSQLAccessListQuery_relations:
  "sublist (''FROM '' @ c) (getSQLAccessListQuery c t s ty a)"
  "sublist ''FROM cnd_ActorIndex'' (getSQLAccessListQuery c t s ty a)"
  "sublist ''FROM cnd_ObjectIndex'' (getSQLAccessListQuery c t s ty a)"
  "sublist ''FROM cnd_Permission'' (getSQLAccessListQuery c t s ty a)"
  "sublist (''computedTuple LIKE '' @ [CHR 0x27] @ t @ ''%'' @ [CHR 0x27])
     (getSQLAccessListQuery c t s ty a)"
  unfolding getSQLAccessListQuery_def
  by (simp_all add: sublist_Cons_right sublist_skip)

text \<open>
  The generic SQL text ends, on every input, with a join predicate that names the
  alias \<open>obj\<close>.
\<close>

lemma getSQLAccessListQuery_join_predicate:
  "suffix ''ON actors.entity = obj.entity OR obj.entity = '*';'' (getSQLAccessListQuery c t s ty a)"
  unfolding getSQLAccessListQuery_def
  by (intro suffix_appendI) (simp add: suffix_def)

lemma getSQLAccessListQuery_no_word_obj:
  "\<not> sublist ''obj '' (getSQLAccessListQuery ''cnd_document'' ''User:1#read@Document'' ''User:1'' ''Document'' ''read'')
   \<and> \<not> sublist ''obj\<newline>'' (getSQLAccessListQuery ''cnd_document'' ''User:1#read@Document'' ''User:1'' ''Document'' ''read'')"
  by (simp add: getSQLAccessListQuery_def sublist_Cons_right)

lemma getSQLAccessListQuery_names_objects:
  "sublist '') objects\<newline>'' (getSQLAccessListQuery ''cnd_document'' ''User:1#read@Document'' ''User:1'' ''Document'' ''read'')"
  by (simp add: getSQLAccessListQuery_def sublist_Cons_right)

lemma getPostgresAccessListQuery_names_obj:
  "sublist '') as obj\<newline>'' (getPostgresAccessListQuery ''cnd_document'' ''User:1#read@Document'' ''User:1'' ''Document'' ''read'')"
  by (simp add: getPostgresAccessListQuery_def sublist_Cons_right)

text \<open>
  C2. The claim asks that the aliases of the join predicates be bound in each dialect.
  For the collection \<open>cnd_document\<close>, the tuple \<open>User:1#read@Document\<close>, the subject
  \<open>User:1\<close>, the object type \<open>Document\<close> and the action \<open>read\<close>, the generic SQL text
  ends with the join predicate \<open>ON actors.entity = obj.entity OR obj.entity = '*';\<close>,
  yet nowhere in the text does \<open>obj\<close> end a word, so nothing is named \<open>obj\<close>: the
  subquery over the object index is named \<open>objects\<close>. The Postgres text names its
  subquery \<open>obj\<close>.
\<close>

theorem getSQLAccessListQuery_alias_not_bound:
  "suffix ''ON actors.entity = obj.entity OR obj.entity = '*';''
     (getSQLAccessListQuery ''cnd_document'' ''User:1#read@Document'' ''User:1'' ''Document'' ''read'')
   \<and> \<not> sublist ''obj ''
     (getSQLAccessListQuery ''cnd_document'' ''User:1#read@Document'' ''User:1'' ''Document'' ''read'')
   \<and> \<not> sublist ''obj\<newline>''
     (getSQLAccessListQuery ''cnd_document'' ''User:1#read@Document'' ''User:1'' ''Document'' ''read'')
   \<and> sublist '') objects\<newline>''
     (getSQLAccessListQuery ''cnd_document'' ''User:1#read@Document'' ''User:1'' ''Document'' ''read'')
   \<and> sublist '') as obj\<newline>''
     (getPostgresAccessListQuery ''cnd_document'' ''User:1#read@Document'' ''User:1'' ''Document'' ''read'')"
  using getSQLAccessListQuery_join_predicate getSQLAccessListQuery_no_word_obj
    getSQLAccessListQuery_names_objects getPostgresAccessListQuery_names_obj
  by blast

end
